theory Spec2Isabelle
  imports Main
begin

section \<open>JavaScript values used by the fetch pipeline\<close>

text \<open>
  Strings are the byte lists of their UTF-8 encoding. Header names and HTTP methods are
  ASCII tokens, so \<^verbatim>\<open>toLowerCase\<close> and \<^verbatim>\<open>toUpperCase\<close> are modelled on the letters A-Z
  and a-z and leave every other byte unchanged.
\<close>

definition lower_table :: "(char \<times> char) list" where
  "lower_table = zip ''ABCDEFGHIJKLMNOPQRSTUVWXYZ'' ''abcdefghijklmnopqrstuvwxyz''"

definition upper_table :: "(char \<times> char) list" where
  "upper_table = zip ''abcdefghijklmnopqrstuvwxyz'' ''ABCDEFGHIJKLMNOPQRSTUVWXYZ''"

definition toLowerCase_char :: "char \<Rightarrow> char" where
  "toLowerCase_char c = (case map_of lower_table c of None \<Rightarrow> c | Some d \<Rightarrow> d)"

definition toUpperCase_char :: "char \<Rightarrow> char" where
  "toUpperCase_char c = (case map_of upper_table c of None \<Rightarrow> c | Some d \<Rightarrow> d)"

definition toLowerCase :: "string \<Rightarrow> string" where
  "toLowerCase s = map toLowerCase_char s"

definition toUpperCase :: "string \<Rightarrow> string" where
  "toUpperCase s = map toUpperCase_char s"

text \<open>
  \<^verbatim>\<open>String.prototype.trim\<close> removes white space and line terminators from both ends: the
  code points U+0009 to U+000D, U+0020, U+00A0, U+1680, U+2000 to U+200A, U+2028, U+2029,
  U+202F, U+205F, U+3000 and U+FEFF, listed here by their UTF-8 encoding.
\<close>

definition white_space :: "string list" where
  "white_space =
     [[CHR 0x09], [CHR 0x0A], [CHR 0x0B], [CHR 0x0C], [CHR 0x0D], [CHR 0x20],
      [CHR 0xC2, CHR 0xA0], [CHR 0xE1, CHR 0x9A, CHR 0x80],
      [CHR 0xE2, CHR 0x80, CHR 0x80], [CHR 0xE2, CHR 0x80, CHR 0x81],
      [CHR 0xE2, CHR 0x80, CHR 0x82], [CHR 0xE2, CHR 0x80, CHR 0x83],
      [CHR 0xE2, CHR 0x80, CHR 0x84], [CHR 0xE2, CHR 0x80, CHR 0x85],
      [CHR 0xE2, CHR 0x80, CHR 0x86], [CHR 0xE2, CHR 0x80, CHR 0x87],
      [CHR 0xE2, CHR 0x80, CHR 0x88], [CHR 0xE2, CHR 0x80, CHR 0x89],
      [CHR 0xE2, CHR 0x80, CHR 0x8A], [CHR 0xE2, CHR 0x80, CHR 0xA8],
      [CHR 0xE2, CHR 0x80, CHR 0xA9], [CHR 0xE2, CHR 0x80, CHR 0xAF],
      [CHR 0xE2, CHR 0x81, CHR 0x9F], [CHR 0xE3, CHR 0x80, CHR 0x80],
      [CHR 0xEF, CHR 0xBB, CHR 0xBF]]"

text \<open>
  \<open>strip ws s\<close> removes members of \<open>ws\<close> from the front of \<open>s\<close> as long as one of them is a
  prefix of what is left.
\<close>

function strip :: "string list \<Rightarrow> string \<Rightarrow> string" where
  "strip ws s =
     (case List.find (\<lambda>w. w \<noteq> [] \<and> take (length w) s = w) ws of
        None \<Rightarrow> s
      | Some w \<Rightarrow> strip ws (drop (length w) s))"
  by pat_completeness auto
termination
proof (relation "measure (\<lambda>(ws, s). length s)")
  show "wf (measure (\<lambda>(ws, s). length s))" by simp
next
  fix ws :: "string list" and s w :: string
  assume "List.find (\<lambda>w. w \<noteq> [] \<and> take (length w) s = w) ws = Some w"
  then have w: "w \<noteq> []" and t: "take (length w) s = w"
    by (auto simp: find_Some_iff)
  from t have "length (take (length w) s) = length w"
    by simp
  then have "length w \<le> length s"
    by simp
  with w show "((ws, drop (length w) s), (ws, s)) \<in> measure (\<lambda>(ws, s). length s)"
    by (cases w) auto
qed

declare strip.simps [simp del]

definition trimStart :: "string \<Rightarrow> string" where
  "trimStart s = strip white_space s"

definition trimEnd :: "string \<Rightarrow> string" where
  "trimEnd s = rev (strip (map rev white_space) (rev s))"

definition trim :: "string \<Rightarrow> string" where
  "trim s = trimEnd (trimStart s)"

text \<open>\<^verbatim>\<open>Array.prototype.join\<close>.\<close>

fun join :: "string \<Rightarrow> string list \<Rightarrow> string" where
  "join sep [] = []"
| "join sep [x] = x"
| "join sep (x # y # ys) = x @ sep @ join sep (y # ys)"

text \<open>
  \<^verbatim>\<open>s.split(headerListSeparatorRegexp)\<close> with the separator \<^verbatim>\<open>/,[ \t]*/\<close>: a comma and the
  spaces and tabs that follow it.
\<close>

function split_header_list :: "string \<Rightarrow> string list" where
  "split_header_list [] = [[]]"
| "split_header_list (c # cs) =
     (if c = CHR '','' then
        [] # split_header_list (dropWhile (\<lambda>d. d = CHR '' '' \<or> d = CHR 0x09) cs)
      else (case split_header_list cs of
              [] \<Rightarrow> [[c]]
            | w # ws \<Rightarrow> (c # w) # ws))"
  by pat_completeness auto
termination
  by (relation "measure length") (auto simp: less_Suc_eq_le length_dropWhile_le)

text \<open>
  A plain JavaScript object with string keys and string values, as an association list
  in insertion order: assigning to a present key keeps its place, assigning to a new key
  appends it.
\<close>

type_synonym headers = "(string \<times> string) list"

definition obj_get :: "headers \<Rightarrow> string \<Rightarrow> string option" where
  "obj_get h k = map_of h k"

fun obj_set :: "headers \<Rightarrow> string \<Rightarrow> string \<Rightarrow> headers" where
  "obj_set [] k v = [(k, v)]"
| "obj_set ((k', v') # h) k v =
     (if k' = k then (k, v) # h else (k', v') # obj_set h k v)"

definition obj_keys :: "headers \<Rightarrow> string list" where
  "obj_keys h = map fst h"

text \<open>A value that is \<^verbatim>\<open>undefined\<close>, \<^verbatim>\<open>null\<close> or a string, compared with \<^verbatim>\<open>!==\<close>.\<close>

datatype jsval = JUndefined | JNull | JString string

fun js_to_string :: "jsval \<Rightarrow> string" where
  "js_to_string JUndefined = ''undefined''"
| "js_to_string JNull = ''null''"
| "js_to_string (JString s) = s"

text \<open>
  \<^verbatim>\<open>Buffer.from(s).toString("base64")\<close>: the standard alphabet with padding, three bytes to
  four digits.
\<close>

definition base64_alphabet :: string where
  "base64_alphabet = ''ABCDEFGHIJKLMNOPQRSTUVWXYZabcdefghijklmnopqrstuvwxyz0123456789+/''"

definition base64_digit :: "nat \<Rightarrow> char" where
  "base64_digit n = base64_alphabet ! (n mod 64)"

fun base64 :: "string \<Rightarrow> string" where
  "base64 [] = []"
| "base64 [a] =
     (let n = of_char a * 65536 in
      [base64_digit (n div 262144), base64_digit (n div 4096), CHR ''='', CHR ''=''])"
| "base64 [a, b] =
     (let n = of_char a * 65536 + of_char b * 256 in
      [base64_digit (n div 262144), base64_digit (n div 4096), base64_digit (n div 64),
       CHR ''=''])"
| "base64 (a # b # c # rest) =
     (let n = of_char a * 65536 + of_char b * 256 + of_char c in
      [base64_digit (n div 262144), base64_digit (n div 4096), base64_digit (n div 64),
       base64_digit n] @ base64 rest)"

section \<open>The request state of xhr-utils.js\<close>

text \<open>
  \<^verbatim>\<open>simpleMethods\<close>, \<^verbatim>\<open>simpleHeaders\<close> and \<^verbatim>\<open>READY_STATES.DONE\<close> of lines 21-36.
\<close>

definition simpleMethods :: "string list" where
  "simpleMethods = [''GET'', ''HEAD'', ''POST'']"

definition simpleHeaders :: "string list" where
  "simpleHeaders = [''accept'', ''accept-language'', ''content-language'', ''content-type'']"

definition DONE :: nat where
  "DONE = 4"

text \<open>
  \<^verbatim>\<open>new URL(flag.uri)\<close> is computed by the whatwg-url package; the model takes the parsed
  object, with the four properties \<^verbatim>\<open>createClient\<close> reads.
\<close>

record url =
  protocol :: string
  url_origin :: string
  href :: string
  pathname :: string

text \<open>
  \<^verbatim>\<open>xhr.flag\<close>: the fields \<^verbatim>\<open>createClient\<close> and the error steps read. \<open>uri\<close> is the parsed
  \<^verbatim>\<open>flag.uri\<close>; \<open>auth\<close> is the pair of \<^verbatim>\<open>flag.auth.user\<close> and \<^verbatim>\<open>flag.auth.pass\<close>;
  \<open>cookieJar\<close> is \<open>None\<close> without a jar and otherwise holds the \<^verbatim>\<open>cookieString()\<close> of every
  cookie the jar's \<^verbatim>\<open>getCookies\<close> yields for the request URL; \<open>body\<close> is \<open>None\<close> for
  \<^verbatim>\<open>undefined\<close> and \<^verbatim>\<open>null\<close>; \<open>proxy\<close> is \<open>None\<close> for \<^verbatim>\<open>undefined\<close>. The jar answers
  \<^verbatim>\<open>getCookies\<close> at once, as the memory store of the cookie library does. The TLS option
  only parametrises the transport agent and is left out.
\<close>

record flag =
  uri :: url
  flag_method :: string
  requestHeaders :: headers
  referrer :: string
  userAgent :: string
  origin :: string
  withCredentials :: bool
  auth :: "(string \<times> string) option"
  cookieJar :: "string list option"
  body :: "string option"
  formData :: bool
  synchronous :: bool
  preflight :: bool
  proxy :: "string option"

text \<open>
  \<^verbatim>\<open>xhr.properties\<close>. \<open>prop_origin\<close> is \<^verbatim>\<open>properties.origin\<close>, which is assigned by the
  caller of \<^verbatim>\<open>createClient\<close>; \<open>error\<close> is the message in \<^verbatim>\<open>properties.error\<close>; the three
  caches are \<open>None\<close> for \<^verbatim>\<open>null\<close>.
\<close>

record properties =
  uploadListener :: bool
  uploadComplete :: bool
  send :: bool
  prop_origin :: jsval
  error :: string
  responseCache :: "string option"
  responseTextCache :: "string option"
  responseXMLCache :: "string option"
  responseHeaders :: headers

record xhr =
  readyState :: nat
  status :: nat
  statusText :: string
  flag :: flag
  properties :: properties
  ownerDocument :: bool

text \<open>
  Errors: a rejection of the transport (with its message), the three errors
  \<^verbatim>\<open>createClient\<close> throws itself, the \<^verbatim>\<open>DOMException\<close> named NetworkError that
  \<^verbatim>\<open>dispatchError\<close> creates, and a \<^verbatim>\<open>TypeError\<close> or \<^verbatim>\<open>ReferenceError\<close> of the runtime.
\<close>

datatype js_error =
    TransportError string
  | MaxRedirects "string option"
  | PreflightStatus nat
  | PreflightTODO
  | NetworkError string
  | TypeError string
  | ReferenceError string

text \<open>
  The response of node-fetch. Its \<^verbatim>\<open>headers\<close> property is a \<^verbatim>\<open>Headers\<close> instance, read
  through \<^verbatim>\<open>has\<close>, \<^verbatim>\<open>get\<close>, \<^verbatim>\<open>raw\<close> and \<^verbatim>\<open>forEach\<close> (lines 320, 330, 331, 342, 360): the
  model lists its entries, lower-cased name and raw values, in the order of \<^verbatim>\<open>forEach\<close>.
  \<open>resp_buffer\<close> is what \<^verbatim>\<open>resp.buffer()\<close> settles to.
\<close>

type_synonym fetch_headers = "(string \<times> string list) list"

record response =
  resp_status :: nat
  resp_headers :: fetch_headers
  resp_buffer :: "js_error + string"

definition headers_has :: "fetch_headers \<Rightarrow> string \<Rightarrow> bool" where
  "headers_has h name = (map_of h (toLowerCase name) \<noteq> None)"

definition headers_get :: "fetch_headers \<Rightarrow> string \<Rightarrow> string option" where
  "headers_get h name = map_option (join '', '') (map_of h (toLowerCase name))"

definition headers_raw :: "fetch_headers \<Rightarrow> string \<Rightarrow> string list" where
  "headers_raw h name = (case map_of h name of None \<Rightarrow> [] | Some vs \<Rightarrow> vs)"

definition headers_forEach :: "fetch_headers \<Rightarrow> (string \<times> string) list" where
  "headers_forEach h = map (\<lambda>(k, vs). (k, join '', '' vs)) h"

text \<open>
  The \<^verbatim>\<open>headers\<close> property of the response object handed to \<^verbatim>\<open>validCORSHeaders\<close>, which
  reads it with a property access \<^verbatim>\<open>response.headers[name]\<close> (lines 76, 83, 97). On a plain
  object that is the stored value. A \<^verbatim>\<open>Headers\<close> instance keeps its entries in an internal
  map and has no property named after a header: the access yields \<^verbatim>\<open>undefined\<close>.
\<close>

datatype headers_object = PlainObject headers | HeadersInstance fetch_headers

fun prop_get :: "headers_object \<Rightarrow> string \<Rightarrow> string option" where
  "prop_get (PlainObject h) name = obj_get h name"
| "prop_get (HeadersInstance h) name = None"

text \<open>
  What one call of \<^verbatim>\<open>fetch\<close> settles to, with the state of the abort signal when the
  handler runs (\<open>ex_aborted\<close>) and when the handler of \<^verbatim>\<open>resp.buffer()\<close> runs
  (\<open>ex_body_aborted\<close>). The network is the list of these for the successive calls; when the
  list is used up the operation stays suspended.
\<close>

record exchange =
  ex_aborted :: bool
  ex_result :: "js_error + response"
  ex_body_aborted :: bool

text \<open>
  The \<^verbatim>\<open>headers\<close> option of a call of \<^verbatim>\<open>fetch\<close>. The transport reads a plain object by its
  properties. It reads an Array, like every iterable, as the sequence of its elements,
  each a pair of name and value, and ignores its string properties: \<open>ArrayInit\<close> is an
  Array with no element and the given string properties. \<open>sent_headers\<close> are the headers
  the transport takes from the option for the request.
\<close>

datatype headers_init = ObjectInit headers | ArrayInit headers

fun sent_headers :: "headers_init \<Rightarrow> headers" where
  "sent_headers (ObjectInit h) = h"
| "sent_headers (ArrayInit props) = []"

fun init_properties :: "headers_init \<Rightarrow> headers" where
  "init_properties (ObjectInit h) = h"
| "init_properties (ArrayInit props) = props"

record fetch_options =
  fo_method :: string
  fo_headers :: headers_init
  fo_body :: "string option"

datatype emitted =
    Redirect
  | Response nat headers
  | Data string
  | End
  | Abort
  | Error js_error

datatype target = OnXhr | OnUpload

text \<open>
  The observable effects, in order: the two call sites of \<^verbatim>\<open>fetch\<close> (line 422 and line
  313), \<^verbatim>\<open>client.emit\<close>, \<^verbatim>\<open>response.emit\<close>, \<^verbatim>\<open>cookieJar.setCookie\<close>, \<^verbatim>\<open>fireAnEvent\<close> with the
  state of the request at that moment, and the \<^verbatim>\<open>jsdomError\<close> of the virtual console.
\<close>

datatype event =
    PreflightFetch string fetch_options
  | RealFetch "string option" fetch_options
  | ClientEmit emitted
  | ResponseEmit emitted
  | SetCookie string "string option"
  | XhrFired string target xhr
  | JsdomError string

section \<open>Header lookup and the error steps\<close>

text \<open>
  \<^verbatim>\<open>getRequestHeader\<close> (lines 38-49): the keys are visited from the last to the first, and
  the value of the first one whose lower-case form is the lower-cased name is returned;
  \<open>None\<close> is \<^verbatim>\<open>null\<close>.
\<close>

fun getRequestHeader_loop :: "headers \<Rightarrow> string \<Rightarrow> string list \<Rightarrow> string option" where
  "getRequestHeader_loop rh lcHeader [] = None"
| "getRequestHeader_loop rh lcHeader (key # keys) =
     (if toLowerCase key = lcHeader then obj_get rh key
      else getRequestHeader_loop rh lcHeader keys)"

definition getRequestHeader :: "headers \<Rightarrow> string \<Rightarrow> string option" where
  "getRequestHeader rh header =
     getRequestHeader_loop rh (toLowerCase header) (rev (obj_keys rh))"

text \<open>\<^verbatim>\<open>setResponseToNetworkError\<close> (lines 138-144).\<close>

definition setResponseToNetworkError :: "xhr \<Rightarrow> xhr" where
  "setResponseToNetworkError x =
     x\<lparr>properties := (properties x)\<lparr>responseCache := None, responseTextCache := None,
                                     responseXMLCache := None, responseHeaders := []\<rparr>,
       status := 0, statusText := []\<rparr>"

text \<open>
  \<^verbatim>\<open>requestErrorSteps\<close> (lines 111-136). The result is the request after the steps, the
  events fired, each with the request as it is when the event fires, and the exception
  thrown for a synchronous request.
\<close>

definition requestErrorSteps :: "xhr \<Rightarrow> string \<Rightarrow> js_error \<Rightarrow> xhr \<times> event list \<times> js_error option" where
  "requestErrorSteps x0 ev exception =
     (let x1 = x0\<lparr>readyState := DONE\<rparr>;
          x2 = x1\<lparr>properties := (properties x1)\<lparr>send := False\<rparr>\<rparr>;
          x3 = setResponseToNetworkError x2
      in if synchronous (flag x3) then (x3, [], Some exception)
         else
           (let e1 = [XhrFired ''readystatechange'' OnXhr x3];
                x4 = (if \<not> uploadComplete (properties x3)
                      then x3\<lparr>properties := (properties x3)\<lparr>uploadComplete := True\<rparr>\<rparr>
                      else x3);
                e2 = (if \<not> uploadComplete (properties x3) \<and> uploadListener (properties x4)
                      then [XhrFired ev OnUpload x4, XhrFired ''loadend'' OnUpload x4]
                      else [])
            in (x4, e1 @ e2 @ [XhrFired ev OnXhr x4, XhrFired ''loadend'' OnXhr x4], None)))"

text \<open>\<^verbatim>\<open>dispatchError\<close> (lines 63-73).\<close>

definition dispatchError :: "xhr \<Rightarrow> xhr \<times> event list \<times> js_error option" where
  "dispatchError x =
     (let errMessage = error (properties x)
      in case requestErrorSteps x ''error'' (NetworkError errMessage) of
           (x', evs, Some exc) \<Rightarrow> (x', evs, Some exc)
         | (x', evs, None) \<Rightarrow>
             (x', evs @ (if ownerDocument x' then [JsdomError errMessage] else []), None))"

text \<open>
  \<^verbatim>\<open>validCORSHeaders\<close> (lines 75-91). The arguments \<^verbatim>\<open>flag\<close> and \<^verbatim>\<open>properties\<close> are the
  objects \<^verbatim>\<open>xhr.flag\<close> and \<^verbatim>\<open>xhr.properties\<close> themselves at every call, so they are read
  from and written to the request. The result is \<open>Inr\<close> of the value returned, or \<open>Inl\<close>
  of the exception the error steps throw.
\<close>

definition header_value :: "string option \<Rightarrow> jsval" where
  "header_value v = (case v of None \<Rightarrow> JNull
                     | Some s \<Rightarrow> if s = [] then JNull else JString (trim s))"

definition fail_with :: "xhr \<Rightarrow> string \<Rightarrow> xhr \<times> event list \<times> (js_error + bool)" where
  "fail_with x msg =
     (case dispatchError (x\<lparr>properties := (properties x)\<lparr>error := msg\<rparr>\<rparr>) of
        (x', evs, Some exc) \<Rightarrow> (x', evs, Inl exc)
      | (x', evs, None) \<Rightarrow> (x', evs, Inr False))"

definition validCORSHeaders :: "xhr \<Rightarrow> headers_object \<Rightarrow> jsval \<Rightarrow> xhr \<times> event list \<times> (js_error + bool)" where
  "validCORSHeaders x hdrs orig =
     (let acao = header_value (prop_get hdrs ''access-control-allow-origin'')
      in if acao \<noteq> JString ''*'' \<and> acao \<noteq> orig
         then fail_with x (''Cross origin '' @ js_to_string orig @ '' forbidden'')
         else
           (let acac = header_value (prop_get hdrs ''access-control-allow-credentials'')
            in if withCredentials (flag x) \<and> acac \<noteq> JString ''true''
               then fail_with x ''Credentials forbidden''
               else (x, [], Inr True)))"

text \<open>\<^verbatim>\<open>validCORSPreflightHeaders\<close> (lines 93-109).\<close>

definition allowed_headers :: "headers_object \<Rightarrow> string list" where
  "allowed_headers hdrs =
     (case prop_get hdrs ''access-control-allow-headers'' of
        None \<Rightarrow> []
      | Some acahStr \<Rightarrow>
          if acahStr = [] then [] else split_header_list (toLowerCase (trim acahStr)))"

definition forbiddenHeaders :: "xhr \<Rightarrow> headers_object \<Rightarrow> string list" where
  "forbiddenHeaders x hdrs =
     filter (\<lambda>header. toLowerCase header \<notin> set simpleHeaders
                      \<and> toLowerCase header \<notin> set (allowed_headers hdrs))
            (obj_keys (requestHeaders (flag x)))"

definition validCORSPreflightHeaders :: "xhr \<Rightarrow> headers_object \<Rightarrow> xhr \<times> event list \<times> (js_error + bool)" where
  "validCORSPreflightHeaders x hdrs =
     (case validCORSHeaders x hdrs (prop_origin (properties x)) of
        (x', evs, Inl exc) \<Rightarrow> (x', evs, Inl exc)
      | (x', evs, Inr False) \<Rightarrow> (x', evs, Inr False)
      | (x', evs, Inr True) \<Rightarrow>
          if forbiddenHeaders x' hdrs \<noteq> []
          then (case fail_with x' (''Headers '' @ join '','' (forbiddenHeaders x' hdrs) @ '' forbidden'') of
                  (x'', evs', r) \<Rightarrow> (x'', evs @ evs', r))
          else (x', evs, Inr True))"

section \<open>createClient: requests over http and https\<close>

text \<open>
  The request headers of lines 238-263. The loop of line 240 copies every key of
  \<^verbatim>\<open>flag.requestHeaders\<close> with its value.
\<close>

definition copy_headers :: "headers \<Rightarrow> headers" where
  "copy_headers src =
     foldl (\<lambda>acc header. case obj_get src header of
                            None \<Rightarrow> acc
                          | Some v \<Rightarrow> obj_set acc header v)
           [] (obj_keys src)"

definition crossOrigin :: "flag \<Rightarrow> bool" where
  "crossOrigin fl = (origin fl \<noteq> url_origin (uri fl))"

definition ucMethod :: "flag \<Rightarrow> string" where
  "ucMethod fl = toUpperCase (flag_method fl)"

definition default_headers :: "flag \<Rightarrow> headers" where
  "default_headers fl =
     (let rh0 = copy_headers (requestHeaders fl);
          rh1 = (if getRequestHeader (requestHeaders fl) ''referer'' = None
                 then obj_set rh0 ''Referer'' (referrer fl) else rh0);
          rh2 = (if getRequestHeader (requestHeaders fl) ''user-agent'' = None
                 then obj_set rh1 ''User-Agent'' (userAgent fl) else rh1);
          rh3 = (if getRequestHeader (requestHeaders fl) ''accept-language'' = None
                 then obj_set rh2 ''Accept-Language'' ''en'' else rh2);
          rh4 = (if getRequestHeader (requestHeaders fl) ''accept-encoding'' = None
                 then obj_set rh3 ''Accept-Encoding'' ''gzip,deflate'' else rh3);
          rh5 = (if getRequestHeader (requestHeaders fl) ''accept'' = None
                 then obj_set rh4 ''Accept'' ''*/*'' else rh4)
      in if crossOrigin fl then obj_set rh5 ''Origin'' (origin fl) else rh5)"

text \<open>
  Lines 281-307: the \<^verbatim>\<open>Cookie\<close> header from the jar, \<^verbatim>\<open>hasBody\<close>, and the default
  \<^verbatim>\<open>Content-Type\<close>.
\<close>

definition cookie_header :: "flag \<Rightarrow> headers \<Rightarrow> headers" where
  "cookie_header fl rh =
     (case cookieJar fl of
        None \<Rightarrow> rh
      | Some cookies \<Rightarrow>
          if (\<not> crossOrigin fl \<or> withCredentials fl) \<and> cookies \<noteq> []
          then obj_set rh ''Cookie'' (join ''; '' cookies) else rh)"

definition hasBody :: "flag \<Rightarrow> bool" where
  "hasBody fl =
     (body fl \<noteq> None \<and> body fl \<noteq> Some [] \<and> \<not> (ucMethod fl = ''HEAD'' \<or> ucMethod fl = ''GET''))"

definition initial_headers :: "flag \<Rightarrow> headers" where
  "initial_headers fl =
     (let rh = cookie_header fl (default_headers fl)
      in if hasBody fl \<and> getRequestHeader (requestHeaders fl) ''content-type'' = None
         then obj_set rh ''Content-Type'' ''text/plain;charset=UTF-8'' else rh)"

text \<open>
  The variables the handlers of \<^verbatim>\<open>doRequestTo\<close> share: the object \<^verbatim>\<open>requestHeaders\<close>, which
  is also \<^verbatim>\<open>options.headers\<close>, \<^verbatim>\<open>gatheredCookies\<close>, \<^verbatim>\<open>requestsDone\<close>, and the state of
  \<^verbatim>\<open>abortController.signal\<close>.
\<close>

record closure =
  req_headers :: headers
  gatheredCookies :: "string list list"
  requestsDone :: nat
  aborted :: bool

definition request_options :: "flag \<Rightarrow> closure \<Rightarrow> fetch_options" where
  "request_options fl st =
     \<lparr>fo_method = flag_method fl, fo_headers = ObjectInit (req_headers st),
      fo_body = (if hasBody fl \<and> \<not> formData fl then body fl else None)\<rparr>"

text \<open>The condition of line 320 and the header of lines 322-323.\<close>

definition auth_retry :: "flag \<Rightarrow> closure \<Rightarrow> response \<Rightarrow> bool" where
  "auth_retry fl st resp =
     (resp_status resp = 401 \<and> auth fl \<noteq> None
      \<and> obj_get (req_headers st) ''Authorization'' = None
      \<and> headers_has (resp_headers resp) ''www-authenticate'')"

definition authHeader :: "flag \<Rightarrow> string" where
  "authHeader fl =
     (case auth fl of
        None \<Rightarrow> []
      | Some (user, pass) \<Rightarrow> ''Basic '' @ base64 (user @ '':'' @ pass))"

text \<open>Lines 329-333: the cookies of a response join the gathered ones.\<close>

definition track_cookies :: "response \<Rightarrow> closure \<Rightarrow> closure" where
  "track_cookies resp st =
     (if headers_has (resp_headers resp) ''set-cookie''
      then st\<lparr>gatheredCookies := gatheredCookies st @ [headers_raw (resp_headers resp) ''set-cookie'']\<rparr>
      else st)"

text \<open>
  Lines 346-375, for a response that is neither retried nor a redirect. \<open>commit_cookies\<close> is
  the block of lines 347-355: when cookies were gathered, line 349 takes the jar of the
  request or, without one, evaluates \<^verbatim>\<open>new CookieJar()\<close>. \<^verbatim>\<open>CookieJar\<close> is bound at line 5
  from the main module of the package, which is itself still being loaded when it
  requires this file: the binding is \<^verbatim>\<open>undefined\<close> and the expression throws a
  \<^verbatim>\<open>TypeError\<close>, which the handler of line 377 catches. With a jar the loops of lines
  350-354, \<open>setCookies\<close>, set the gathered cookies against the URL requested. Then the
  response is announced, and what \<^verbatim>\<open>resp.buffer()\<close> settles to is delivered, or caught by
  the handler of line 377 (\<open>announce\<close>, lines 359-383).
\<close>

definition setCookies :: "closure \<Rightarrow> string option \<Rightarrow> event list" where
  "setCookies st u = concat (map (map (\<lambda>value. SetCookie value u)) (gatheredCookies st))"

definition commit_cookies :: "flag \<Rightarrow> closure \<Rightarrow> string option \<Rightarrow> js_error + event list" where
  "commit_cookies fl st u =
     (if gatheredCookies st = [] then Inr []
      else case cookieJar fl of
             None \<Rightarrow> Inl (TypeError ''CookieJar is not a constructor'')
           | Some jar \<Rightarrow> Inr (setCookies st u))"

definition response_headers :: "response \<Rightarrow> headers" where
  "response_headers resp =
     foldl (\<lambda>acc (key, value). obj_set acc key value) [] (headers_forEach (resp_headers resp))"

definition announce :: "exchange \<Rightarrow> response \<Rightarrow> event list" where
  "announce x resp =
     ClientEmit (Response (resp_status resp) (response_headers resp)) #
     (case resp_buffer resp of
        Inr buffer \<Rightarrow>
          [ResponseEmit (Data buffer), ClientEmit (Data buffer), ResponseEmit End, ClientEmit End]
      | Inl err \<Rightarrow>
          if ex_body_aborted x then [ClientEmit Abort] else [ClientEmit (Error err)])"

definition deliver :: "flag \<Rightarrow> closure \<Rightarrow> string option \<Rightarrow> exchange \<Rightarrow> response \<Rightarrow> event list" where
  "deliver fl st u x resp =
     (case commit_cookies fl st u of
        Inl err \<Rightarrow> [ClientEmit (Error err)]
      | Inr writes \<Rightarrow> writes @ announce x resp)"

text \<open>
  \<^verbatim>\<open>doRequestTo\<close> (lines 312-384). Each call is a call of \<^verbatim>\<open>fetch\<close> with the current options.
  A call made when the signal is already aborted is rejected at once and caught at line
  377. Otherwise the operation waits for the next exchange of the network; a rejection is
  caught at line 377, a response runs the handler of line 314.
\<close>

fun doRequestTo :: "flag \<Rightarrow> closure \<Rightarrow> string option \<Rightarrow> exchange list \<Rightarrow> event list" where
  "doRequestTo fl st u [] =
     RealFetch u (request_options fl st) # (if aborted st then [ClientEmit Abort] else [])"
| "doRequestTo fl st u (x # net) =
     RealFetch u (request_options fl st) #
     (if aborted st then [ClientEmit Abort]
      else case ex_result x of
        Inl err \<Rightarrow> if ex_aborted x then [ClientEmit Abort] else [ClientEmit (Error err)]
      | Inr resp \<Rightarrow>
          if ex_aborted x then [ClientEmit Abort]
          else if auth_retry fl st resp
          then doRequestTo fl (st\<lparr>req_headers := obj_set (req_headers st) ''Authorization'' (authHeader fl)\<rparr>) u net
          else if 300 \<le> resp_status resp \<and> resp_status resp < 400
          then (if Suc (requestsDone (track_cookies resp st)) = 21
                then [ClientEmit (Error (MaxRedirects u))]
                else ClientEmit Redirect #
                     doRequestTo fl ((track_cookies resp st)\<lparr>requestsDone := Suc (requestsDone (track_cookies resp st))\<rparr>)
                       (headers_get (resp_headers resp) ''location'') net)
          else deliver fl (track_cookies resp st) u x resp)"

text \<open>
  The preflight of lines 390-442. \<^verbatim>\<open>nonSimpleHeaders\<close> is computed from
  \<^verbatim>\<open>flag.requestHeaders\<close>; the headers of the preflight are copied from \<^verbatim>\<open>requestHeaders\<close>.
  \<^verbatim>\<open>preflightRequestHeaders\<close> is created as an Array (line 394) and the headers are assigned
  to it as string properties: \<open>preflightRequestHeaders\<close> below are these properties, and the
  option handed to \<^verbatim>\<open>fetch\<close> is the Array.
\<close>

definition nonSimpleHeaders :: "flag \<Rightarrow> string list" where
  "nonSimpleHeaders fl =
     filter (\<lambda>header. toLowerCase header \<notin> set simpleHeaders) (obj_keys (requestHeaders fl))"

definition copy_allowed :: "headers \<Rightarrow> headers" where
  "copy_allowed rh =
     foldl (\<lambda>acc header.
              if toLowerCase header = ''origin'' \<or> toLowerCase header = ''referrer''
              then (case obj_get rh header of None \<Rightarrow> acc | Some v \<Rightarrow> obj_set acc header v)
              else acc)
           [] (obj_keys rh)"

definition preflightRequestHeaders :: "flag \<Rightarrow> headers \<Rightarrow> headers" where
  "preflightRequestHeaders fl rh =
     (let h1 = obj_set (copy_allowed rh) ''Access-Control-Request-Method'' (flag_method fl);
          h2 = (if nonSimpleHeaders fl \<noteq> []
                then obj_set h1 ''Access-Control-Request-Headers'' (join '', '' (nonSimpleHeaders fl))
                else h1)
      in obj_set h2 ''User-Agent'' (userAgent fl))"

definition preflightOptions :: "flag \<Rightarrow> headers \<Rightarrow> fetch_options" where
  "preflightOptions fl rh =
     \<lparr>fo_method = ''OPTIONS'', fo_headers = ArrayInit (preflightRequestHeaders fl rh),
      fo_body = None\<rparr>"

text \<open>
  The handler of line 436 tests \<^verbatim>\<open>abortController.signal.abort\<close>. The signal has the
  property \<^verbatim>\<open>aborted\<close>, which lines 315 and 378 read, and no property \<^verbatim>\<open>abort\<close>: the
  expression is \<^verbatim>\<open>undefined\<close> whatever the state of the signal, and the test fails.
\<close>

definition signal_abort :: bool where
  "signal_abort = False"

definition preflight_catch :: "js_error \<Rightarrow> event list" where
  "preflight_catch err = (if signal_abort then [ClientEmit Abort] else [ClientEmit (Error err)])"

definition needs_preflight :: "xhr \<Rightarrow> bool" where
  "needs_preflight x =
     (crossOrigin (flag x)
      \<and> (ucMethod (flag x) \<notin> set simpleMethods \<or> nonSimpleHeaders (flag x) \<noteq> []
         \<or> uploadListener (properties x)))"

definition initial_closure :: "flag \<Rightarrow> closure" where
  "initial_closure fl =
     \<lparr>req_headers = initial_headers fl, gatheredCookies = [], requestsDone = 0, aborted = False\<rparr>"

text \<open>
  The handler of line 423 for the response of the preflight. The response handed to
  \<^verbatim>\<open>validCORSPreflightHeaders\<close> is the one of \<^verbatim>\<open>fetch\<close>, whose headers are a \<^verbatim>\<open>Headers\<close>
  instance.
\<close>

definition preflight_then :: "xhr \<Rightarrow> closure \<Rightarrow> exchange \<Rightarrow> response \<Rightarrow> exchange list \<Rightarrow> event list" where
  "preflight_then x st p resp net =
     (if resp_status resp < 200 \<or> resp_status resp > 299
      then preflight_catch (PreflightStatus (resp_status resp))
      else case validCORSPreflightHeaders x (HeadersInstance (resp_headers resp)) of
             (x', evs, Inl exc) \<Rightarrow> evs @ preflight_catch exc
           | (x', evs, Inr False) \<Rightarrow> evs @ preflight_catch PreflightTODO
           | (x', evs, Inr True) \<Rightarrow>
               evs @ doRequestTo (flag x') (st\<lparr>aborted := ex_aborted p\<rparr>) (Some (href (uri (flag x')))) net)"

text \<open>
  The transport refuses a URL whose protocol is neither \<^verbatim>\<open>http:\<close> nor \<^verbatim>\<open>https:\<close> before any
  I/O: the call of \<^verbatim>\<open>fetch\<close> for the URL of the request settles to this rejection whatever
  the network would answer, and also when the network never answers. Of the first
  exchange only the state of the abort signal is kept. The URLs of redirects are not
  parsed here: what a call for one of them settles to is what the list of exchanges says.
\<close>

definition refusal :: js_error where
  "refusal = TypeError ''Only HTTP(S) protocols are supported''"

definition transport :: "url \<Rightarrow> exchange list \<Rightarrow> exchange list" where
  "transport u net =
     (if protocol u = ''http:'' \<or> protocol u = ''https:'' then net
      else case net of
             [] \<Rightarrow> [\<lparr>ex_aborted = False, ex_result = Inl refusal, ex_body_aborted = False\<rparr>]
           | p # rest \<Rightarrow> p\<lparr>ex_result := Inl refusal\<rparr> # rest)"

text \<open>
  Lines 265-272 create the transport agent. With a proxy configured, line 268 calls
  \<^verbatim>\<open>parse\<close>, which this file neither declares nor imports: the call throws a
  \<^verbatim>\<open>ReferenceError\<close> out of \<^verbatim>\<open>createClient\<close>. Without a proxy the agent is created and has no
  further part in the model.
\<close>

definition proxy_set :: "flag \<Rightarrow> bool" where
  "proxy_set fl = (case proxy fl of None \<Rightarrow> False | Some p \<Rightarrow> p \<noteq> [])"

text \<open>
  The part of \<^verbatim>\<open>createClient\<close> after the \<^verbatim>\<open>file:\<close> and \<^verbatim>\<open>data:\<close> branches (lines 238-461),
  run against the network: \<open>Inl\<close> of the exception thrown, or \<open>Inr\<close> of the effects. The
  bookkeeping of the request manager emits nothing and is left out.
\<close>

definition createClient_http :: "xhr \<Rightarrow> exchange list \<Rightarrow> js_error + event list" where
  "createClient_http x net =
     (let st = initial_closure (flag x); u = href (uri (flag x))
      in if proxy_set (flag x) then Inl (ReferenceError ''parse is not defined'')
         else if needs_preflight x
         then Inr (PreflightFetch u (preflightOptions (flag x) (req_headers st)) #
              (case transport (uri (flag x)) net of
                 [] \<Rightarrow> []
               | p # net' \<Rightarrow>
                   (case ex_result p of
                      Inl err \<Rightarrow> preflight_catch err
                    | Inr resp \<Rightarrow>
                        preflight_then (x\<lparr>flag := (flag x)\<lparr>preflight := True\<rparr>\<rparr>) st p resp net')))
         else Inr (doRequestTo (flag x) st (Some u) (transport (uri (flag x)) net)))"

section \<open>createClient: dispatch on the protocol\<close>

text \<open>
  The path of a \<^verbatim>\<open>file:\<close> URL (lines 164-167, and lines 220-223 of the resource loader):
  the three calls of \<^verbatim>\<open>replace\<close>.
\<close>

definition strip_file_scheme :: "string \<Rightarrow> string" where
  "strip_file_scheme s = (if take 7 s = ''file://'' then drop 7 s else s)"

definition is_letter :: "char \<Rightarrow> bool" where
  "is_letter c = (map_of lower_table c \<noteq> None \<or> map_of upper_table c \<noteq> None)"

definition drive_letter :: "string \<Rightarrow> string" where
  "drive_letter s =
     (if length s \<ge> 4 \<and> s ! 0 = CHR ''/'' \<and> is_letter (s ! 1) \<and> s ! 2 = CHR '':''
         \<and> s ! 3 = CHR ''/''
      then drop 1 s else s)"

function replace_pct20 :: "string \<Rightarrow> string" where
  "replace_pct20 [] = []"
| "replace_pct20 (c # cs) =
     (if c = CHR ''%'' \<and> take 2 cs = ''20'' then CHR '' '' # replace_pct20 (drop 2 cs)
      else c # replace_pct20 cs)"
  by pat_completeness auto
termination
  by (relation "measure length") auto

definition filePath :: "string \<Rightarrow> string" where
  "filePath s = replace_pct20 (drive_letter (strip_file_scheme s))"

text \<open>What the read stream of a file reports, in order.\<close>

datatype stream_event = Chunk string | StreamEnd | StreamError js_error

fun stream_emit :: "stream_event \<Rightarrow> event list" where
  "stream_emit (Chunk chunk) = [ResponseEmit (Data chunk), ClientEmit (Data chunk)]"
| "stream_emit StreamEnd = [ResponseEmit End, ClientEmit End]"
| "stream_emit (StreamError err) = [ClientEmit (Error err)]"

text \<open>
  The client \<^verbatim>\<open>createClient\<close> returns. For a \<^verbatim>\<open>file:\<close> URL: the path opened and the effects
  of the callbacks that run after the call. For a \<^verbatim>\<open>data:\<close> URL: the function assigned to
  \<^verbatim>\<open>client.abort\<close> (\<open>None\<close> when none is assigned), the effects during the call, and the
  effects of each callback scheduled with \<^verbatim>\<open>process.nextTick\<close>, in the order they run. For
  any other URL: the effects of the request over the network.

  The three functions assigned to \<^verbatim>\<open>client.abort\<close>: the one of lines 185-188 destroys the
  read stream and emits \<^verbatim>\<open>abort\<close>, the one of lines 221-223 has an empty body, the one of
  lines 290-292 aborts the signal.
\<close>

datatype abort_method = DestroyStream | DoNothing | AbortSignal

datatype client =
    FileClient string "event list list"
  | DataClient "abort_method option" "event list" "event list list"
  | HttpClient "event list"

text \<open>
  The \<^verbatim>\<open>data:\<close> branch (lines 209-236). \<^verbatim>\<open>parseDataURL\<close> belongs to the data-urls package:
  the model takes its result, \<open>None\<close> for \<^verbatim>\<open>null\<close> and otherwise the media type as a string
  and the body. On \<^verbatim>\<open>null\<close> the access \<^verbatim>\<open>parsed.mimeType\<close> throws a \<^verbatim>\<open>TypeError\<close>, which is
  caught at line 216.
\<close>

definition createClient_data :: "(string \<times> string) option \<Rightarrow> client" where
  "createClient_data parsed =
     (case parsed of
        None \<Rightarrow>
          DataClient None [] [[ClientEmit (Error (TypeError ''Cannot read property mimeType of null''))]]
      | Some (contentType, buffer) \<Rightarrow>
          DataClient (Some DoNothing) []
            [[ClientEmit (Response 200 (obj_set [] ''content-type'' contentType))],
             [ResponseEmit (Data buffer), ClientEmit (Data buffer), ResponseEmit End,
              ClientEmit End]])"

text \<open>
  The \<^verbatim>\<open>file:\<close> branch (lines 163-207): the response is announced on the next tick, with
  status 200 and no headers, and the stream's reports are passed on.
\<close>

definition createClient_file :: "xhr \<Rightarrow> stream_event list \<Rightarrow> client" where
  "createClient_file x stream =
     FileClient (filePath (pathname (uri (flag x))))
       ([ClientEmit (Response 200 [])] # map stream_emit stream)"

text \<open>
  \<^verbatim>\<open>createClient\<close> (lines 148-462): \<open>Inl\<close> of the exception thrown, or \<open>Inr\<close> of the client
  returned.
\<close>

definition createClient :: "xhr \<Rightarrow> (string \<times> string) option \<Rightarrow> stream_event list \<Rightarrow> exchange list \<Rightarrow> js_error + client" where
  "createClient x parsed stream net =
     (if protocol (uri (flag x)) = ''file:'' then Inr (createClient_file x stream)
      else if protocol (uri (flag x)) = ''data:'' then Inr (createClient_data parsed)
      else case createClient_http x net of
             Inl exc \<Rightarrow> Inl exc
           | Inr trace \<Rightarrow> Inr (HttpClient trace))"

text \<open>
  The property \<^verbatim>\<open>client.abort\<close> of the client returned, and a call \<^verbatim>\<open>client.abort()\<close>: the
  function that runs, or the \<^verbatim>\<open>TypeError\<close> of calling a property that was never assigned.
\<close>

fun client_abort :: "client \<Rightarrow> abort_method option" where
  "client_abort (FileClient path callbacks) = Some DestroyStream"
| "client_abort (DataClient a now ticks) = a"
| "client_abort (HttpClient trace) = Some AbortSignal"

definition call_abort :: "client \<Rightarrow> js_error + abort_method" where
  "call_abort c =
     (case client_abort c of
        None \<Rightarrow> Inl (TypeError ''client.abort is not a function'')
      | Some f \<Rightarrow> Inr f)"

section \<open>The resource loader\<close>

text \<open>
  \<^verbatim>\<open>ResourceLoader.fetch\<close> (resource-loader.js, lines 198-230). \<^verbatim>\<open>parseURL\<close> belongs to
  whatwg-url: the model takes its result, \<open>None\<close> for \<^verbatim>\<open>null\<close> and otherwise the record with
  its \<^verbatim>\<open>scheme\<close>. The result says which helper is started, with its arguments, that the
  promise returned is rejected at once, or that the call throws. \<open>opt_cookieJar\<close> is the
  \<^verbatim>\<open>cookieJar\<close> option: \<open>None\<close> when the caller gives none, otherwise the cookie strings the
  jar yields for the URL. Without the option line 212 evaluates \<^verbatim>\<open>new CookieJar()\<close>, where
  \<^verbatim>\<open>CookieJar\<close> is bound at line 7 from the main module of the package while that module is
  still being loaded: the binding is \<^verbatim>\<open>undefined\<close> and the expression throws a \<^verbatim>\<open>TypeError\<close>.
\<close>

record url_record =
  scheme :: string

record loader =
  loader_userAgent :: string
  IS_BROWSER :: bool

record fetch_opts =
  opt_cookieJar :: "string list option"
  opt_referrer :: "string option"
  opt_accept :: "string option"

datatype fetch_result =
    Rejected string
  | Threw js_error
  | ReadDataURL url_record
  | Request string headers
  | ReadFile string

text \<open>\<^verbatim>\<open>_getRequestOptions\<close> (lines 84-111): the headers of the request.\<close>

definition getRequestOptions :: "loader \<Rightarrow> string list \<Rightarrow> fetch_opts \<Rightarrow> headers" where
  "getRequestOptions rl cookies opts =
     (let h0 = [(''User-Agent'', loader_userAgent rl), (''Accept-Language'', ''en''),
                (''Accept-Encoding'', ''gzip''),
                (''Accept'', case opt_accept opts of None \<Rightarrow> ''*/*'' | Some a \<Rightarrow> a)];
          h1 = (if cookies \<noteq> [] then obj_set h0 ''Cookie'' (join ''; '' cookies)
                else h0)
      in case opt_referrer opts of
           None \<Rightarrow> h1
         | Some r \<Rightarrow> if r \<noteq> [] \<and> \<not> IS_BROWSER rl then obj_set h1 ''Referer'' r else h1)"

definition loader_fetch :: "loader \<Rightarrow> string \<Rightarrow> url_record option \<Rightarrow> fetch_opts \<Rightarrow> fetch_result" where
  "loader_fetch rl urlString parsed opts =
     (case parsed of
        None \<Rightarrow> Rejected (''Tried to fetch invalid URL '' @ urlString)
      | Some u \<Rightarrow>
          if scheme u = ''data'' then ReadDataURL u
          else if scheme u = ''http'' \<or> scheme u = ''https''
          then (case opt_cookieJar opts of
                  None \<Rightarrow> Threw (TypeError ''CookieJar is not a constructor'')
                | Some cookies \<Rightarrow> Request urlString (getRequestOptions rl cookies opts))
          else if scheme u = ''file'' then ReadFile (filePath urlString)
          else Rejected (''Tried to fetch URL '' @ urlString @ '' with invalid scheme '' @ scheme u))"

section \<open>Predicates and sample inputs of the properties\<close>

text \<open>
  The canonical network-error shape of the response state: status 0, empty status text,
  empty headers, and the three response caches null.
\<close>

definition network_error_shape :: "xhr \<Rightarrow> bool" where
  "network_error_shape x =
     (status x = 0 \<and> statusText x = [] \<and> responseHeaders (properties x) = []
      \<and> responseCache (properties x) = None \<and> responseTextCache (properties x) = None
      \<and> responseXMLCache (properties x) = None)"

text \<open>The request an observer of a fired event sees.\<close>

fun observed :: "event \<Rightarrow> xhr option" where
  "observed (XhrFired n t s) = Some s"
| "observed _ = None"

text \<open>
  A cross-origin \<^verbatim>\<open>PUT\<close> with one custom header, in the middle of receiving a response.
\<close>

definition example_xhr :: xhr where
  "example_xhr =
     \<lparr>readyState = 3, status = 200, statusText = ''OK'',
      flag = \<lparr>uri = \<lparr>protocol = ''http:'', url_origin = ''http://b.example'',
                     href = ''http://b.example/data'', pathname = ''/data''\<rparr>,
              flag_method = ''PUT'', requestHeaders = [(''X-Token'', ''t'')],
              referrer = ''http://a.example/page'', userAgent = ''jsdom'',
              origin = ''http://a.example'', withCredentials = False, auth = None,
              cookieJar = None, body = None, formData = False, synchronous = False,
              preflight = False, proxy = None\<rparr>,
      properties = \<lparr>uploadListener = True, uploadComplete = False, send = True,
                    prop_origin = JString ''http://a.example'', error = ''boom'',
                    responseCache = Some ''partial'', responseTextCache = Some ''partial'',
                    responseXMLCache = None,
                    responseHeaders = [(''content-type'', ''text/plain'')]\<rparr>,
      ownerDocument = True\<rparr>"

text \<open>Reading a trace: the calls of the transport, and what the client emits.\<close>

fun is_preflight :: "event \<Rightarrow> bool" where
  "is_preflight (PreflightFetch u opts) = True"
| "is_preflight _ = False"

fun is_fetch :: "event \<Rightarrow> bool" where
  "is_fetch (PreflightFetch u opts) = True"
| "is_fetch (RealFetch u opts) = True"
| "is_fetch _ = False"

text \<open>What \<^verbatim>\<open>client.emit\<close> reports, in order.\<close>

fun client_events :: "event list \<Rightarrow> emitted list" where
  "client_events [] = []"
| "client_events (ClientEmit e # es) = e # client_events es"
| "client_events (_ # es) = client_events es"

definition answered :: "response \<Rightarrow> exchange" where
  "answered r = \<lparr>ex_aborted = False, ex_result = Inr r, ex_body_aborted = False\<rparr>"

definition is_redirect :: "response \<Rightarrow> bool" where
  "is_redirect r = (300 \<le> resp_status r \<and> resp_status r < 400)"

definition cookies_of :: "response list \<Rightarrow> string list list" where
  "cookies_of rs =
     map (\<lambda>r. headers_raw (resp_headers r) ''set-cookie'')
         (filter (\<lambda>r. headers_has (resp_headers r) ''set-cookie'') rs)"

definition followed :: "closure \<Rightarrow> response list \<Rightarrow> closure" where
  "followed st rs =
     st\<lparr>gatheredCookies := gatheredCookies st @ cookies_of rs,
        requestsDone := requestsDone st + length rs\<rparr>"

definition last_location :: "string option \<Rightarrow> response list \<Rightarrow> string option" where
  "last_location u rs = (if rs = [] then u else headers_get (resp_headers (last rs)) ''location'')"

definition simple_xhr :: xhr where
  "simple_xhr =
     example_xhr\<lparr>flag := (flag example_xhr)\<lparr>flag_method := ''get'',
                                               requestHeaders := [(''Accept'', ''text/html'')]\<rparr>,
                 properties := (properties example_xhr)\<lparr>uploadListener := False\<rparr>\<rparr>"


definition r200 :: response where
  "r200 = \<lparr>resp_status = 200,
            resp_headers = [(''content-type'', [''text/plain'']), (''set-cookie'', [''sid=7'', ''lang=en''])],
            resp_buffer = Inr ''hello''\<rparr>"


text \<open>The same request with an empty cookie jar, and with credentials as well.\<close>

definition jar_xhr :: xhr where
  "jar_xhr = simple_xhr\<lparr>flag := (flag simple_xhr)\<lparr>cookieJar := Some []\<rparr>\<rparr>"


text \<open>The calls of \<^verbatim>\<open>setCookie\<close> in a trace, and the announcement of the response.\<close>

fun is_set_cookie :: "event \<Rightarrow> bool" where
  "is_set_cookie (SetCookie v u) = True"
| "is_set_cookie _ = False"


fun cookie_writes :: "event list \<Rightarrow> (string \<times> string option) list" where
  "cookie_writes [] = []"
| "cookie_writes (SetCookie v u # es) = (v, u) # cookie_writes es"
| "cookie_writes (_ # es) = cookie_writes es"


text \<open>A request for an \<^verbatim>\<open>ftp:\<close> URL, and a resource loader with its options.\<close>

definition ftp_xhr :: xhr where
  "ftp_xhr =
     simple_xhr\<lparr>flag := (flag simple_xhr)\<lparr>uri := \<lparr>protocol = ''ftp:'', url_origin = ''ftp://b.example'',
                                                     href = ''ftp://b.example/data'',
                                                     pathname = ''/data''\<rparr>\<rparr>\<rparr>"



text \<open>
  The response of a preflight that allows everything the sample request asks for, a call
  of the transport that is rejected because the request was aborted, and a request for a
  \<^verbatim>\<open>data:\<close> URL with no comma, which \<^verbatim>\<open>parseDataURL\<close> does not parse.
\<close>

definition preflight_ok :: response where
  "preflight_ok =
     \<lparr>resp_status = 200,
      resp_headers = [(''access-control-allow-headers'', [''x-token'']),
                      (''access-control-allow-origin'', [''*''])],
      resp_buffer = Inr []\<rparr>"

definition aborted_fetch :: exchange where
  "aborted_fetch =
     \<lparr>ex_aborted = True, ex_result = Inl (TransportError ''AbortError''), ex_body_aborted = False\<rparr>"

definition data_xhr :: xhr where
  "data_xhr =
     simple_xhr\<lparr>flag := (flag simple_xhr)\<lparr>uri := \<lparr>protocol = ''data:'', url_origin = ''null'',
                                                     href = ''data:text/plain'',
                                                     pathname = ''text/plain''\<rparr>\<rparr>\<rparr>"

section \<open>Properties\<close>

subsection \<open>The error steps\<close>

text \<open>
  Claim C9. Whenever the error steps run, the response state is reset to the network-error
  shape (status 0, empty status text, empty headers, null caches) before anything is
  reported: the request they leave has that shape, every event they fire is fired on a
  request of that shape, and the error is reported either by the exception thrown for a
  synchronous request, after the reset and with no event fired, or by the event fired on
  the request.
\<close>

theorem error_steps_reset_first:
  assumes "requestErrorSteps x ev exc = (x', evs, thrown)"
  shows "network_error_shape x'
       \<and> list_all (\<lambda>e. case observed e of None \<Rightarrow> True | Some s \<Rightarrow> network_error_shape s) evs
       \<and> (if synchronous (flag x) then evs = [] \<and> thrown = Some exc
          else thrown = None \<and> XhrFired ev OnXhr x' \<in> set evs)"
  using assms
  by (auto simp: requestErrorSteps_def setResponseToNetworkError_def network_error_shape_def
      Let_def split: if_splits)

theorem error_steps_reset_first_witness:
  "\<exists>x' evs. requestErrorSteps example_xhr ''error'' (NetworkError ''boom'') = (x', evs, None)
     \<and> \<not> network_error_shape example_xhr
     \<and> network_error_shape x'
     \<and> length evs = 5
     \<and> list_all (\<lambda>e. case observed e of None \<Rightarrow> True | Some s \<Rightarrow> network_error_shape s) evs
     \<and> XhrFired ''error'' OnXhr x' \<in> set evs"
proof -
  obtain x' evs thrown where
    r: "requestErrorSteps example_xhr ''error'' (NetworkError ''boom'') = (x', evs, thrown)"
    by (metis prod_cases3)
  have s: "\<not> synchronous (flag example_xhr)" by (simp add: example_xhr_def)
  from error_steps_reset_first [OF r] s have
    a: "network_error_shape x'"
    and b: "list_all (\<lambda>e. case observed e of None \<Rightarrow> True | Some s \<Rightarrow> network_error_shape s) evs"
    and c: "thrown = None" and d: "XhrFired ''error'' OnXhr x' \<in> set evs"
    by auto
  have e: "\<not> network_error_shape example_xhr"
    by (simp add: network_error_shape_def example_xhr_def)
  have f: "length evs = 5"
    using r by (auto simp: requestErrorSteps_def Let_def example_xhr_def
        setResponseToNetworkError_def)
  show ?thesis using r a b c d e f by blast
qed

subsection \<open>Evaluating the sample inputs\<close>

lemma lower_samples:
  "toLowerCase ''referer'' = ''referer''"
  "toLowerCase ''user-agent'' = ''user-agent''"
  "toLowerCase ''accept-language'' = ''accept-language''"
  "toLowerCase ''accept-encoding'' = ''accept-encoding''"
  "toLowerCase ''accept'' = ''accept''"
  "toLowerCase ''content-type'' = ''content-type''"
  "toLowerCase ''set-cookie'' = ''set-cookie''"
  "toLowerCase ''location'' = ''location''"
  "toLowerCase ''www-authenticate'' = ''www-authenticate''"
  "toLowerCase ''Accept'' = ''accept''"
  "toLowerCase ''X-Token'' = ''x-token''"
  "toLowerCase ''Referer'' = ''referer''"
  "toLowerCase ''User-Agent'' = ''user-agent''"
  "toLowerCase ''Accept-Language'' = ''accept-language''"
  "toLowerCase ''Accept-Encoding'' = ''accept-encoding''"
  "toLowerCase ''Origin'' = ''origin''"
  "toLowerCase ''Cookie'' = ''cookie''"
  "toLowerCase ''Access-Control-Request-Method'' = ''access-control-request-method''"
  "toLowerCase ''Access-Control-Request-Headers'' = ''access-control-request-headers''"
  by (simp_all add: toLowerCase_def toLowerCase_char_def lower_table_def)


lemma example_headers: "initial_headers (flag example_xhr) =
   [(''X-Token'', ''t''), (''Referer'', ''http://a.example/page''), (''User-Agent'', ''jsdom''),
    (''Accept-Language'', ''en''), (''Accept-Encoding'', ''gzip,deflate''), (''Accept'', ''*/*''),
    (''Origin'', ''http://a.example'')]"
  by (simp add: initial_headers_def cookie_header_def default_headers_def example_xhr_def
      copy_headers_def obj_keys_def obj_get_def getRequestHeader_def lower_samples
      crossOrigin_def hasBody_def)



lemma ftp_headers: "initial_headers (flag ftp_xhr) =
   [(''Accept'', ''text/html''), (''Referer'', ''http://a.example/page''), (''User-Agent'', ''jsdom''),
    (''Accept-Language'', ''en''), (''Accept-Encoding'', ''gzip,deflate''),
    (''Origin'', ''http://a.example'')]"
  by (simp add: initial_headers_def cookie_header_def default_headers_def ftp_xhr_def simple_xhr_def example_xhr_def
      copy_headers_def obj_keys_def obj_get_def getRequestHeader_def lower_samples
      crossOrigin_def hasBody_def)

lemma example_fields:
  "href (uri (flag example_xhr)) = ''http://b.example/data''"
  "flag_method (flag example_xhr) = ''PUT''"
  "userAgent (flag example_xhr) = ''jsdom''"
  "origin (flag example_xhr) = ''http://a.example''"
  "requestHeaders (flag example_xhr) = [(''X-Token'', ''t'')]"
  by (simp_all add: example_xhr_def)

lemma jar_headers: "initial_headers (flag jar_xhr) =
   [(''Accept'', ''text/html''), (''Referer'', ''http://a.example/page''), (''User-Agent'', ''jsdom''),
    (''Accept-Language'', ''en''), (''Accept-Encoding'', ''gzip,deflate''),
    (''Origin'', ''http://a.example'')]"
  by (simp add: initial_headers_def cookie_header_def default_headers_def jar_xhr_def simple_xhr_def example_xhr_def
      copy_headers_def obj_keys_def obj_get_def getRequestHeader_def lower_samples
      crossOrigin_def hasBody_def)


lemma sample_fields:
  "\<not> proxy_set (flag example_xhr)"
  "\<not> proxy_set (flag simple_xhr)"
  "\<not> proxy_set (flag jar_xhr)"
  "cookieJar (flag jar_xhr) = Some []"
  "cookieJar (flag simple_xhr) = None"
  "protocol (uri (flag example_xhr)) = ''http:''"
  "protocol (uri (flag simple_xhr)) = ''http:''"
  "protocol (uri (flag jar_xhr)) = ''http:''"
  "href (uri (flag simple_xhr)) = ''http://b.example/data''"
  "href (uri (flag jar_xhr)) = ''http://b.example/data''"
  by (simp_all add: jar_xhr_def simple_xhr_def example_xhr_def proxy_set_def)

subsection \<open>Facts about the trace\<close>

lemma deliver_eq:
  "deliver fl st u x resp =
     (if gatheredCookies st \<noteq> [] \<and> cookieJar fl = None
      then [ClientEmit (Error (TypeError ''CookieJar is not a constructor''))]
      else setCookies st u @ announce x resp)"
  by (auto simp: deliver_def commit_cookies_def setCookies_def split: option.splits)

lemma client_events_append: "client_events (a @ b) = client_events a @ client_events b"
  by (induction a rule: client_events.induct) auto

lemma is_redirect_no_retry: "is_redirect r \<Longrightarrow> \<not> auth_retry fl st r"
  by (simp add: is_redirect_def auth_retry_def)

lemma followed_Nil: "followed st [] = st"
  by (simp add: followed_def cookies_of_def)

lemma followed_Cons:
  "followed st (r # rs)
     = followed ((track_cookies r st)\<lparr>requestsDone := Suc (requestsDone (track_cookies r st))\<rparr>) rs"
  by (simp add: followed_def cookies_of_def track_cookies_def)

lemma last_location_Cons:
  "last_location u (r # rs) = last_location (headers_get (resp_headers r) ''location'') rs"
  by (simp add: last_location_def)

lemma requestsDone_track: "requestsDone (track_cookies r st) = requestsDone st"
  by (simp add: track_cookies_def)

lemma aborted_track: "aborted (track_cookies r st) = aborted st"
  by (simp add: track_cookies_def)

lemma req_headers_track: "req_headers (track_cookies r st) = req_headers st"
  by (simp add: track_cookies_def)

text \<open>Following a chain of redirects that stays under the limit.\<close>

lemma follow_redirects:
  assumes "\<not> aborted st" and "list_all is_redirect rs" and "requestsDone st + length rs \<le> 20"
  shows "client_events (doRequestTo fl st u (map answered rs @ rest))
           = replicate (length rs) Redirect
             @ client_events (doRequestTo fl (followed st rs) (last_location u rs) rest)
       \<and> length (filter is_fetch (doRequestTo fl st u (map answered rs @ rest)))
           = length rs
             + length (filter is_fetch (doRequestTo fl (followed st rs) (last_location u rs) rest))"
  using assms
proof (induction rs arbitrary: st u)
  case Nil
  then show ?case by (simp add: followed_Nil last_location_def)
next
  case (Cons r rs)
  let ?st = "(track_cookies r st)\<lparr>requestsDone := Suc (requestsDone (track_cookies r st))\<rparr>"
  let ?u = "headers_get (resp_headers r) ''location''"
  have red: "300 \<le> resp_status r \<and> resp_status r < 400"
    using Cons.prems(2) by (simp add: is_redirect_def)
  have nr: "\<not> auth_retry fl st r"
    using Cons.prems(2) by (simp add: is_redirect_no_retry)
  have lim: "Suc (requestsDone (track_cookies r st)) \<noteq> 21"
    using Cons.prems(3) by (simp add: requestsDone_track)
  have step: "doRequestTo fl st u (map answered (r # rs) @ rest)
        = RealFetch u (request_options fl st) # ClientEmit Redirect
          # doRequestTo fl ?st ?u (map answered rs @ rest)"
    using Cons.prems(1) red nr lim by (simp add: answered_def)
  have ih: "client_events (doRequestTo fl ?st ?u (map answered rs @ rest))
           = replicate (length rs) Redirect
             @ client_events (doRequestTo fl (followed ?st rs) (last_location ?u rs) rest)
       \<and> length (filter is_fetch (doRequestTo fl ?st ?u (map answered rs @ rest)))
           = length rs
             + length (filter is_fetch (doRequestTo fl (followed ?st rs) (last_location ?u rs) rest))"
    using Cons.prems by (intro Cons.IH) (simp_all add: aborted_track requestsDone_track)
  show ?case
    unfolding step followed_Cons last_location_Cons using ih by simp
qed



lemma followed_fields:
  "req_headers (followed st rs) = req_headers st"
  "aborted (followed st rs) = aborted st"
  "requestsDone (followed st rs) = requestsDone st + length rs"
  by (simp_all add: followed_def)












lemma requestErrorSteps_no_fetch:
  "requestErrorSteps x ev exc = (x', evs, thrown) \<Longrightarrow> e \<in> set evs \<Longrightarrow> \<not> is_fetch e"
  by (auto simp: requestErrorSteps_def Let_def split: if_splits)

lemma dispatchError_no_fetch:
  "dispatchError x = (x', evs, thrown) \<Longrightarrow> e \<in> set evs \<Longrightarrow> \<not> is_fetch e"
  by (auto simp: dispatchError_def Let_def split: prod.splits option.splits if_splits
      dest: requestErrorSteps_no_fetch)

lemma fail_with_no_fetch:
  "fail_with x msg = (x', evs, r) \<Longrightarrow> e \<in> set evs \<Longrightarrow> \<not> is_fetch e"
  by (auto simp: fail_with_def split: prod.splits option.splits dest: dispatchError_no_fetch)

lemma validCORSHeaders_no_fetch:
  "validCORSHeaders x h orig = (x', evs, r) \<Longrightarrow> e \<in> set evs \<Longrightarrow> \<not> is_fetch e"
  by (auto simp: validCORSHeaders_def Let_def split: if_splits dest: fail_with_no_fetch)

lemma validCORSPreflightHeaders_no_fetch:
  "validCORSPreflightHeaders x h = (x', evs, r) \<Longrightarrow> e \<in> set evs \<Longrightarrow> \<not> is_fetch e"
  by (auto simp: validCORSPreflightHeaders_def split: prod.splits sum.splits bool.splits if_splits
      dest: fail_with_no_fetch validCORSHeaders_no_fetch)




lemma obj_get_obj_set: "obj_get (obj_set h k v) k' = (if k' = k then Some v else obj_get h k')"
  by (induction h) (auto simp: obj_get_def)


lemma deliver_no_jar:
  assumes "cookieJar fl = None" and "gatheredCookies st \<noteq> []"
  shows "deliver fl st u x resp = [ClientEmit (Error (TypeError ''CookieJar is not a constructor''))]"
  using assms by (simp add: deliver_eq)


lemma base64_example: "base64 ''user:pass'' = ''dXNlcjpwYXNz''"
  by (simp add: base64_digit_def base64_alphabet_def)
lemma obj_get_keys: "obj_get h k \<noteq> None \<longleftrightarrow> k \<in> set (obj_keys h)"
  by (simp add: obj_get_def obj_keys_def map_of_eq_None_iff)

lemma obj_get_copy_loop:
  "obj_get (foldl (\<lambda>acc header.
              if toLowerCase header = ''origin'' \<or> toLowerCase header = ''referrer''
              then (case obj_get rh header of None \<Rightarrow> acc | Some v \<Rightarrow> obj_set acc header v)
              else acc) acc ks) k
   = (if k \<in> set ks \<and> (toLowerCase k = ''origin'' \<or> toLowerCase k = ''referrer'')
         \<and> obj_get rh k \<noteq> None
      then obj_get rh k else obj_get acc k)"
proof (induction ks arbitrary: acc)
  case Nil
  then show ?case by simp
next
  case (Cons a ks)
  show ?case
    by (cases "obj_get rh a") (auto simp: Cons.IH obj_get_obj_set)
qed

lemma obj_get_copy_allowed:
  "obj_get (copy_allowed rh) k
   = (if toLowerCase k = ''origin'' \<or> toLowerCase k = ''referrer'' then obj_get rh k else None)"
proof -
  have e: "obj_get [] k = None" by (simp add: obj_get_def)
  show ?thesis
    unfolding copy_allowed_def obj_get_copy_loop e
    using obj_get_keys [of rh k] by auto
qed

lemma default_headers_Origin:
  assumes "crossOrigin fl"
  shows "obj_get (default_headers fl) ''Origin'' = Some (origin fl)"
proof -
  have "\<exists>rh. default_headers fl = obj_set rh ''Origin'' (origin fl)"
    unfolding default_headers_def Let_def using assms by (simp only: if_True) blast
  then show ?thesis by (auto simp: obj_get_obj_set)
qed

lemma cookie_header_Origin: "obj_get (cookie_header fl rh) ''Origin'' = obj_get rh ''Origin''"
  by (simp add: cookie_header_def obj_get_obj_set split: option.splits)

lemma initial_headers_Origin:
  "crossOrigin fl \<Longrightarrow> obj_get (initial_headers fl) ''Origin'' = Some (origin fl)"
  by (simp add: initial_headers_def Let_def obj_get_obj_set cookie_header_Origin
      default_headers_Origin)

lemma obj_get_preflightRequestHeaders:
  "obj_get (preflightRequestHeaders fl rh) k
   = (if k = ''User-Agent'' then Some (userAgent fl)
      else if k = ''Access-Control-Request-Headers'' \<and> nonSimpleHeaders fl \<noteq> []
      then Some (join '', '' (nonSimpleHeaders fl))
      else if k = ''Access-Control-Request-Method'' then Some (flag_method fl)
      else obj_get (copy_allowed rh) k)"
  by (simp add: preflightRequestHeaders_def Let_def obj_get_obj_set)

text \<open>
  The properties set on the Array of line 394, for every request that needs a preflight:
  the method as the caller gave it, the names of the non-simple headers as the caller
  wrote them, the user agent, and the \<^verbatim>\<open>Origin\<close> of the request; nothing else but,
  possibly, a header whose name is a spelling of referer or referrer. The transport takes
  no header from them.
\<close>

lemma preflight_array_properties:
  assumes "needs_preflight x" and "\<not> proxy_set (flag x)"
  shows "\<exists>ph later. createClient_http x net
             = Inr (PreflightFetch (href (uri (flag x)))
                      \<lparr>fo_method = ''OPTIONS'', fo_headers = ArrayInit ph, fo_body = None\<rparr> # later)
     \<and> sent_headers (ArrayInit ph) = []
     \<and> obj_get ph ''Access-Control-Request-Method'' = Some (flag_method (flag x))
     \<and> obj_get ph ''Access-Control-Request-Headers''
         = (let names = filter (\<lambda>name. toLowerCase name \<notin> {''accept'', ''accept-language'',
                                     ''content-language'', ''content-type''})
                               (obj_keys (requestHeaders (flag x)))
            in if names = [] then None else Some (join '', '' names))
     \<and> obj_get ph ''User-Agent'' = Some (userAgent (flag x))
     \<and> obj_get ph ''Origin'' = Some (origin (flag x))
     \<and> (\<forall>name. toLowerCase name = ''origin''
            \<longrightarrow> obj_get ph name = obj_get (initial_headers (flag x)) name)
     \<and> (\<forall>name. name \<notin> {''Access-Control-Request-Method'', ''Access-Control-Request-Headers'',
                         ''User-Agent''}
              \<and> toLowerCase name \<notin> {''origin'', ''referer'', ''referrer''}
            \<longrightarrow> obj_get ph name = None)"
proof -
  let ?ph = "preflightRequestHeaders (flag x) (initial_headers (flag x))"
  have co: "crossOrigin (flag x)"
    using assms by (simp add: needs_preflight_def)
  have hd: "\<exists>later. createClient_http x net
             = Inr (PreflightFetch (href (uri (flag x)))
                      \<lparr>fo_method = ''OPTIONS'', fo_headers = ArrayInit ?ph, fo_body = None\<rparr> # later)"
    using assms
    by (simp add: createClient_http_def Let_def preflightOptions_def initial_closure_def)
  have ns: "nonSimpleHeaders (flag x)
      = filter (\<lambda>name. toLowerCase name \<notin> {''accept'', ''accept-language'',
                                     ''content-language'', ''content-type''})
               (obj_keys (requestHeaders (flag x)))"
    by (simp add: nonSimpleHeaders_def simpleHeaders_def)
  have m: "obj_get ?ph ''Access-Control-Request-Method'' = Some (flag_method (flag x))"
    by (simp add: obj_get_preflightRequestHeaders)
  have h: "obj_get ?ph ''Access-Control-Request-Headers''
         = (if nonSimpleHeaders (flag x) = [] then None
            else Some (join '', '' (nonSimpleHeaders (flag x))))"
    by (simp add: obj_get_preflightRequestHeaders obj_get_copy_allowed lower_samples)
  have ua: "obj_get ?ph ''User-Agent'' = Some (userAgent (flag x))"
    by (simp add: obj_get_preflightRequestHeaders)
  have og: "obj_get ?ph ''Origin'' = Some (origin (flag x))"
    using initial_headers_Origin [OF co]
    by (simp add: obj_get_preflightRequestHeaders obj_get_copy_allowed lower_samples)
  have cp: "obj_get ?ph name = obj_get (initial_headers (flag x)) name"
    if "toLowerCase name = ''origin''" for name
  proof -
    have "name \<noteq> ''User-Agent''" "name \<noteq> ''Access-Control-Request-Headers''"
      "name \<noteq> ''Access-Control-Request-Method''"
      using that lower_samples by auto
    then show ?thesis
      using that by (simp add: obj_get_preflightRequestHeaders obj_get_copy_allowed)
  qed
  have no: "obj_get ?ph name = None"
    if "name \<notin> {''Access-Control-Request-Method'', ''Access-Control-Request-Headers'',
                         ''User-Agent''}
              \<and> toLowerCase name \<notin> {''origin'', ''referer'', ''referrer''}" for name
    using that by (simp add: obj_get_preflightRequestHeaders obj_get_copy_allowed)
  from hd obtain later where l: "createClient_http x net
             = Inr (PreflightFetch (href (uri (flag x)))
                      \<lparr>fo_method = ''OPTIONS'', fo_headers = ArrayInit ?ph, fo_body = None\<rparr> # later)"
    by blast
  have e: "sent_headers (ArrayInit ?ph) = []" by simp
  show ?thesis
    using l e m h ua og cp no unfolding ns Let_def by blast
qed




lemma commit_only_cookies: "e \<in> set (setCookies st u) \<Longrightarrow> is_set_cookie e"
  by (auto simp: setCookies_def)










lemma transport_http:
  "protocol u = ''http:'' \<or> protocol u = ''https:'' \<Longrightarrow> transport u net = net"
  by (simp add: transport_def)

text \<open>With a proxy configured \<^verbatim>\<open>createClient\<close> throws before any call of the transport.\<close>

lemma proxy_throws:
  "proxy_set (flag x) \<Longrightarrow> createClient_http x net = Inl (ReferenceError ''parse is not defined'')"
  by (simp add: createClient_http_def Let_def)

text \<open>Without a cookie jar nothing is written, and the loader throws for http(s).\<close>

lemma no_jar_no_writes:
  "cookieJar fl = None \<Longrightarrow> cookie_writes (doRequestTo fl st u net) = []"
proof (induction fl st u net rule: doRequestTo.induct)
  case (1 fl st u)
  then show ?case by simp
next
  case (2 fl st u x net)
  then show ?case
    by (auto simp: deliver_eq setCookies_def announce_def split: if_splits sum.splits)
qed

lemma loader_without_jar:
  assumes "scheme u = ''http'' \<or> scheme u = ''https''" and "opt_cookieJar opts = None"
  shows "loader_fetch rl urlString (Some u) opts = Threw (TypeError ''CookieJar is not a constructor'')"
  using assms by (auto simp: loader_fetch_def)

text \<open>The validation reads a \<open>Headers\<close> instance as if it had no header at all.\<close>

lemma header_value_None: "header_value None = JNull"
  by (simp add: header_value_def)

lemma fail_with_result: "fail_with x msg = (x', evs, r) \<Longrightarrow> r \<noteq> Inr True"
  by (auto simp: fail_with_def split: prod.splits option.splits)

lemma validCORSHeaders_instance:
  assumes "orig \<noteq> JNull" and "validCORSHeaders x (HeadersInstance h) orig = (x', evs, r)"
  shows "r \<noteq> Inr True"
  using assms
  by (auto simp: validCORSHeaders_def header_value_None Let_def dest: fail_with_result)

lemma validCORSPreflightHeaders_instance:
  assumes "prop_origin (properties x) \<noteq> JNull"
    and "validCORSPreflightHeaders x (HeadersInstance h) = (x', evs, r)"
  shows "r \<noteq> Inr True"
proof -
  obtain x1 evs1 r1 where
    v: "validCORSHeaders x (HeadersInstance h) (prop_origin (properties x)) = (x1, evs1, r1)"
    by (metis prod_cases3)
  have "r1 \<noteq> Inr True"
    using validCORSHeaders_instance [OF assms(1) v] .
  with assms(2) v show ?thesis
    by (cases r1) (auto simp: validCORSPreflightHeaders_def split: bool.splits)
qed

text \<open>
  So after a preflight the real request is never sent, whatever the response of the
  preflight says.
\<close>

lemma preflight_then_never_sends:
  assumes "prop_origin (properties x) \<noteq> JNull"
  shows "\<not> list_ex is_fetch (preflight_then x st p resp net)"
proof (cases "resp_status resp < 200 \<or> resp_status resp > 299")
  case True
  then show ?thesis
    by (auto simp: preflight_then_def preflight_catch_def signal_abort_def)
next
  case False
  obtain x' evs r where
    v: "validCORSPreflightHeaders x (HeadersInstance (resp_headers resp)) = (x', evs, r)"
    by (metis prod_cases3)
  have r: "r \<noteq> Inr True"
    using validCORSPreflightHeaders_instance [OF assms v] .
  have e: "\<not> list_ex is_fetch evs"
    using validCORSPreflightHeaders_no_fetch [OF v] by (auto simp: list_ex_iff)
  from False v r e show ?thesis
    by (cases r) (auto simp: preflight_then_def preflight_catch_def signal_abort_def
        split: bool.splits)
qed

text \<open>On a plain object the validation is the rule of the CORS protocol.\<close>

lemma validCORSHeaders_plain:
  "(\<exists>x' evs. validCORSHeaders x (PlainObject h) orig = (x', evs, Inr True))
   \<longleftrightarrow> ((header_value (obj_get h ''access-control-allow-origin'') = JString ''*''
          \<or> header_value (obj_get h ''access-control-allow-origin'') = orig)
        \<and> (withCredentials (flag x)
             \<longrightarrow> header_value (obj_get h ''access-control-allow-credentials'') = JString ''true''))"
proof -
  have f: "\<And>msg. \<not> (\<exists>x' evs. fail_with x msg = (x', evs, Inr True))"
    using fail_with_result by blast
  show ?thesis
    by (auto simp: validCORSHeaders_def Let_def f)
qed

lemma example_needs_preflight: "needs_preflight example_xhr"
  by (simp add: needs_preflight_def crossOrigin_def example_xhr_def)

text \<open>
  In the loop of the real request an abort is reported as such: when the signal is aborted
  at the moment a call of the transport settles, after any number of redirects, the client
  emits the redirects and then \<open>Abort\<close>, and nothing else.
\<close>

lemma abort_during_hop:
  assumes "\<not> aborted st" and "list_all is_redirect rs" and "requestsDone st + length rs \<le> 20"
    and "ex_aborted x"
  shows "client_events (doRequestTo fl st u (map answered rs @ x # rest))
           = replicate (length rs) Redirect @ [Abort]"
proof -
  have ab: "\<not> aborted (followed st rs)" using assms(1) by (simp add: followed_fields)
  have "client_events (doRequestTo fl (followed st rs) (last_location u rs) (x # rest)) = [Abort]"
    using ab assms(4) by (cases "ex_result x") simp_all
  with follow_redirects [OF assms(1-3), of fl u "x # rest"] show ?thesis by simp
qed

text \<open>The \<^verbatim>\<open>data:\<close> branch.\<close>

lemma data_url_events:
  "createClient_data (Some (contentType, buffer))
     = DataClient (Some DoNothing) []
         [[ClientEmit (Response 200 [(''content-type'', contentType)])],
          [ResponseEmit (Data buffer), ClientEmit (Data buffer), ResponseEmit End, ClientEmit End]]"
  by (simp add: createClient_data_def)

lemma data_url_abort_well_formed:
  "call_abort (createClient_data (Some (contentType, buffer))) = Inr DoNothing"
  by (simp add: createClient_data_def call_abort_def)

lemma data_url_malformed:
  "\<exists>err. createClient_data None = DataClient None [] [[ClientEmit (Error err)]]"
  by (simp add: createClient_data_def)

subsection \<open>When a preflight is issued\<close>


subsection \<open>The validation of the preflight\<close>

text \<open>
  Claim C2 says that the real request is sent when the response of the preflight has a
  status in [200,299] and headers that allow the origin, the credentials and the headers
  of the request. The code does not do so: for the cross-origin \<^verbatim>\<open>PUT\<close> with the header
  \<^verbatim>\<open>X-Token\<close>, a preflight answered with status 200,
  \<^verbatim>\<open>Access-Control-Allow-Origin: *\<close> and \<^verbatim>\<open>Access-Control-Allow-Headers: x-token\<close> ends in
  the error of line 432, and the only call of the transport is the preflight. The
  validation reads the headers of the response by property access, which finds nothing on
  the \<^verbatim>\<open>Headers\<close> instance of the transport's response.
\<close>

theorem preflight_allowed_but_refused:
  "\<exists>trace. createClient_http example_xhr [answered preflight_ok, answered r200] = Inr trace
     \<and> client_events trace = [Error PreflightTODO]
     \<and> length (filter is_fetch trace) = 1
     \<and> list_ex is_preflight trace"
proof -
  let ?x = "example_xhr\<lparr>flag := (flag example_xhr)\<lparr>preflight := True\<rparr>\<rparr>"
  let ?st = "initial_closure (flag example_xhr)"
  let ?u = "href (uri (flag example_xhr))"
  obtain x' evs r where
    v: "validCORSPreflightHeaders ?x (HeadersInstance (resp_headers preflight_ok)) = (x', evs, r)"
    by (metis prod_cases3)
  have o: "prop_origin (properties ?x) \<noteq> JNull" by (simp add: example_xhr_def)
  have s: "\<not> synchronous (flag ?x)" by (simp add: example_xhr_def)
  have r: "r = Inr False"
    using v o s
    by (auto simp: validCORSPreflightHeaders_def validCORSHeaders_def header_value_None
        fail_with_def dispatchError_def requestErrorSteps_def setResponseToNetworkError_def
        Let_def split: if_splits)
  have e: "client_events evs = []" "filter is_fetch evs = []"
    using v o s
    by (auto simp: validCORSPreflightHeaders_def validCORSHeaders_def header_value_None
        fail_with_def dispatchError_def requestErrorSteps_def setResponseToNetworkError_def
        Let_def split: if_splits)
  have t: "createClient_http example_xhr [answered preflight_ok, answered r200]
      = Inr (PreflightFetch ?u (preflightOptions (flag example_xhr) (req_headers ?st))
             # evs @ [ClientEmit (Error PreflightTODO)])"
    using example_needs_preflight v r
    by (simp add: createClient_http_def Let_def answered_def preflight_then_def preflight_ok_def
        preflight_catch_def signal_abort_def sample_fields transport_http)
  show ?thesis
    unfolding t using e by (simp add: client_events_append)
qed

subsection \<open>The limit on redirects\<close>



subsection \<open>Abort during the preflight\<close>

text \<open>
  Claim C4 says that an abort while the operation waits for the preflight or for a hop of
  the redirect chain is reported by one \<^verbatim>\<open>abort\<close> and no \<^verbatim>\<open>error\<close>. During the preflight
  the code does not do so: when the call of the preflight is rejected because the request
  was aborted, the handler of line 436 tests \<^verbatim>\<open>signal.abort\<close> instead of \<^verbatim>\<open>signal.aborted\<close>
  and the client emits \<^verbatim>\<open>error\<close>.
\<close>

theorem abort_during_preflight_reports_error:
  "\<exists>trace. createClient_http example_xhr [aborted_fetch] = Inr trace
     \<and> client_events trace = [Error (TransportError ''AbortError'')]"
  using example_needs_preflight
  by (simp add: createClient_http_def Let_def aborted_fetch_def preflight_catch_def signal_abort_def
      sample_fields transport_http)

subsection \<open>When the gathered cookies reach the cookie store\<close>



subsection \<open>The authentication retry\<close>


subsection \<open>The headers of the preflight\<close>

text \<open>
  Claim C7 says that the preflight request carries \<^verbatim>\<open>Access-Control-Request-Method\<close>,
  \<^verbatim>\<open>Access-Control-Request-Headers\<close> with the lower-cased names of the non-simple headers,
  and the \<^verbatim>\<open>Origin\<close> and \<^verbatim>\<open>Referer\<close> of the real request. The code does not do so: line 394
  creates \<^verbatim>\<open>preflightRequestHeaders\<close> as an Array, and the headers are assigned to it as
  properties, which the transport does not read. For the cross-origin \<^verbatim>\<open>PUT\<close> with the
  header \<^verbatim>\<open>X-Token\<close> the call of the preflight is made with the Array below and the request
  carries none of its headers. Among the properties of the Array, the name in
  \<^verbatim>\<open>Access-Control-Request-Headers\<close> is not lower-cased, \<^verbatim>\<open>User-Agent\<close> is added, and the
  \<^verbatim>\<open>Referer\<close> of the real request is missing.
\<close>

theorem preflight_carries_no_header:
  "createClient_http example_xhr []
     = Inr [PreflightFetch ''http://b.example/data''
              \<lparr>fo_method = ''OPTIONS'',
               fo_headers = ArrayInit [(''Origin'', ''http://a.example''),
                                       (''Access-Control-Request-Method'', ''PUT''),
                                       (''Access-Control-Request-Headers'', ''X-Token''),
                                       (''User-Agent'', ''jsdom'')],
               fo_body = None\<rparr>]
   \<and> sent_headers (fo_headers (preflightOptions (flag example_xhr) (initial_headers (flag example_xhr)))) = []
   \<and> toLowerCase ''X-Token'' = ''x-token''
   \<and> obj_get (initial_headers (flag example_xhr)) ''Referer'' = Some ''http://a.example/page''"
  using example_needs_preflight
  by (simp add: createClient_http_def Let_def initial_closure_def example_headers example_fields
      preflightOptions_def preflightRequestHeaders_def nonSimpleHeaders_def simpleHeaders_def
      copy_allowed_def obj_keys_def obj_get_def lower_samples sample_fields transport_http)
subsection \<open>URLs of other schemes\<close>


subsection \<open>Abort of a data URL that does not parse\<close>

text \<open>
  Claim C10 says, among other things, that abort on an operation for a \<^verbatim>\<open>data:\<close> URL does
  nothing. For a URL that does not parse the code does not do so: the handler of line 216
  returns the client before line 221 assigns \<^verbatim>\<open>client.abort\<close>, and calling it throws.
\<close>

theorem abort_on_malformed_data_url:
  "\<exists>client. createClient data_xhr None [] [] = Inr client
     \<and> call_abort client = Inl (TypeError ''client.abort is not a function'')"
  by (simp add: createClient_def createClient_data_def data_xhr_def call_abort_def)
end
